theory Spec2Isabelle
  imports Main "HOL-Library.Word" "HOL-Library.Signed_Division"
begin

section \<open>Data model (include/ui/gtk4.h)\<close>

text \<open>
  The GTK 4 display backend keeps one \<open>GtkDisplayState\<close> per session. It embeds the array
  of virtual consoles and the two grab owners, which are pointers into that array. A
  pointer to a console is modelled by the index of the console in \<open>s->vc[]\<close>, the null
  pointer by \<open>None\<close>. The array itself is a total function from indices to consoles (every
  slot of the C array exists, zero-initialised), of which the first \<open>nb_vcs\<close> are in use.

  Fields of \<open>VirtualConsole\<close> carry the prefix \<open>vc_\<close>, those of \<open>VirtualGfxConsole\<close> the
  prefix \<open>gfx_\<close>, those of \<open>QemuDmaBuf\<close> the prefix \<open>dmabuf_\<close>; the fields of
  \<open>GtkDisplayState\<close> keep their names.
\<close>

record DisplaySurface =
  surface_width :: int
  surface_height :: int
  is_placeholder :: bool

text \<open>
  \<open>QemuDmaBuf\<close> is owned by the guest. The console refers to it by address
  (\<open>guest_fb.dmabuf\<close>), and writes \<open>draw_submitted\<close> and \<open>fence_fd\<close> through that
  address, so the dma-bufs live in a store indexed by address.
\<close>

record QemuDmaBuf =
  dmabuf_width :: "32 word"
  dmabuf_height :: "32 word"
  dmabuf_texture :: "32 word"
  dmabuf_fence_fd :: int
  dmabuf_allow_fences :: bool
  dmabuf_draw_submitted :: bool

text \<open>
  Of \<open>egl_fb guest_fb\<close> this code reads and writes one field itself, \<open>dmabuf\<close>; everything
  else in it is touched only by the helpers of ui/egl-helpers.h, whose calls are recorded
  as effects. \<open>gfx_gls\<close> says whether the shader pointer \<open>vc->gfx.gls\<close> is set.
\<close>

record VirtualGfxConsole =
  gfx_ds :: "DisplaySurface option"
  gfx_gls :: bool
  gfx_glupdates :: int
  gfx_x :: "32 word"
  gfx_y :: "32 word"
  gfx_w :: "32 word"
  gfx_h :: "32 word"
  gfx_guest_fb_dmabuf :: "nat option"
  gfx_y0_top :: bool
  gfx_scanout_mode :: bool
  gfx_has_dmabuf :: bool
  gfx_update_interval :: "64 word"

text \<open>
  \<open>vc_window\<close> says whether \<open>vc->window\<close> is set, that is, whether the console is detached
  into a top-level window of its own. The three flags after it are what the widget and the
  console answer to \<open>VIRTUAL_CONSOLE_IS_GFX_WIDGET\<close>, \<open>qemu_console_is_graphic\<close> and
  \<open>gtk_widget_get_realized\<close>.
\<close>

record VirtualConsole =
  vc_label :: string
  vc_window :: bool
  vc_index :: nat
  vc_is_gfx_widget :: bool
  vc_is_graphic :: bool
  vc_realized :: bool
  vc_gfx :: VirtualGfxConsole

text \<open>What the emulator and the toolkit answer when asked.\<close>

record host_env =
  qemu_input_is_absolute :: bool
  runstate_is_running :: bool
  qemu_name :: "string option"
  window_is_fullscreen :: bool

datatype gtk_window = MainWindow | VcWindow nat

datatype gdk_cursor = NullCursor | DefaultCursor

datatype input_axis = INPUT_AXIS_X | INPUT_AXIS_Y

datatype qkey = Q_KEY_CODE_PAUSE | QCode "32 word"

text \<open>
  Calls into GTK, GLib, EGL and the emulator core are recorded, in order, as effects.
  Diagnostic output through \<open>info_report\<close> is left out; the grab and ungrab trace points
  are kept, as they name the console.
\<close>

datatype effect =
    ActionSetState string bool
  | WindowSetTitle gtk_window string
  | WidgetSetCursor nat gdk_cursor
  | DeviceGetSurfaceAtPosition
  | TraceUngrab string string
  | TraceGrab string string string
  | EglFbDestroy
  | EglFbSetupForTex "32 word" "32 word" "32 word" bool
  | SurfaceGlDestroyTexture "DisplaySurface option"
  | SurfaceGlCreateTexture DisplaySurface
  | GlFiniShader
  | GlInitShader
  | UpdateWindowSize
  | GlAreaMakeCurrent
  | GlAreaQueueRender
  | GraphicHwGlBlock bool
  | SetFdHandlerNull int
  | CloseFd int
  | DpySetUiInfoRefreshRate int
  | InputQueueRel input_axis int
  | InputQueueAbs input_axis int int int
  | InputEventSync
  | KbdStateKeyEvent nat qkey bool

record GtkDisplayState =
  nb_vcs :: nat
  vc :: "nat \<Rightarrow> VirtualConsole"
  last_set :: bool
  last_x :: int
  last_y :: int
  kbd_owner :: "nat option"
  ptr_owner :: "nat option"
  effects :: "effect list"

definition emit :: "effect list \<Rightarrow> GtkDisplayState \<Rightarrow> GtkDisplayState" where
  "emit es s = s\<lparr>effects := effects s @ es\<rparr>"

section \<open>Grab arbitration (ui/gtk4.c)\<close>

text \<open>
  \<open>gd_update_caption\<close>: sets the state of the pause action, the title of the main window
  and the title of every detached console window. \<open>caption_effects\<close> is the list of calls
  it makes in a given state.
\<close>

definition caption_title :: "string \<Rightarrow> GtkDisplayState \<Rightarrow> nat \<Rightarrow> string" where
  "caption_title prefix s i =
     prefix @ '': '' @ vc_label (vc s i)
       @ (if Some i = kbd_owner s then '' +kbd'' else '''')
       @ (if Some i = ptr_owner s then '' +ptr'' else '''')"

definition caption_effects :: "host_env \<Rightarrow> GtkDisplayState \<Rightarrow> effect list" where
  "caption_effects env s =
     (let is_paused = \<not> runstate_is_running env;
          prefix = (case qemu_name env of
                      Some n \<Rightarrow> ''QEMU ('' @ n @ '')''
                    | None \<Rightarrow> ''QEMU'');
          grab = (case ptr_owner s of
                    Some p \<Rightarrow> if \<not> vc_window (vc s p)
                              then '' - Press Ctrl+Alt+G to release grab'' else ''''
                  | None \<Rightarrow> '''');
          status = (if is_paused then '' [Paused]'' else '''')
      in [ActionSetState ''pause'' is_paused,
          WindowSetTitle MainWindow (prefix @ status @ grab)]
         @ concat (map (\<lambda>i. if \<not> vc_window (vc s i) then []
                             else [WindowSetTitle (VcWindow i) (caption_title prefix s i)])
                       [0..<nb_vcs s]))"

definition gd_update_caption :: "host_env \<Rightarrow> GtkDisplayState \<Rightarrow> GtkDisplayState" where
  "gd_update_caption env s = emit (caption_effects env s) s"

text \<open>\<open>gd_grab_update\<close>: its whole body is commented out in the source.\<close>

definition gd_grab_update :: "nat \<Rightarrow> bool \<Rightarrow> bool \<Rightarrow> GtkDisplayState \<Rightarrow> GtkDisplayState" where
  "gd_grab_update v kbd ptr s = s"

definition gd_ungrab_pointer :: "host_env \<Rightarrow> GtkDisplayState \<Rightarrow> GtkDisplayState" where
  "gd_ungrab_pointer env s =
     (case ptr_owner s of
        None \<Rightarrow> s
      | Some v \<Rightarrow>
          let s1 = s\<lparr>ptr_owner := None\<rparr>;
              s2 = gd_grab_update v (kbd_owner s1 = Some v) False s1;
              s3 = gd_update_caption env s2
          in emit [TraceUngrab (vc_label (vc s3 v)) ''ptr''] s3)"

text \<open>
  \<open>gd_grab_pointer\<close>. The call of \<open>gdk_device_get_surface_at_position\<close> writes
  \<open>grab_x_root\<close> and \<open>grab_y_root\<close>, which nothing in these sources reads (the warp that
  used them is commented out); it is recorded as an effect.
\<close>

definition gd_grab_pointer :: "host_env \<Rightarrow> nat \<Rightarrow> string \<Rightarrow> GtkDisplayState \<Rightarrow> GtkDisplayState" where
  "gd_grab_pointer env v reason s =
     (if ptr_owner s \<noteq> None \<and> ptr_owner s = Some v then s
      else
        let s0 = (if ptr_owner s \<noteq> None then gd_ungrab_pointer env s else s);
            s1 = gd_grab_update v (kbd_owner s0 = Some v) True s0;
            s2 = emit [DeviceGetSurfaceAtPosition] s1;
            s3 = s2\<lparr>ptr_owner := Some v\<rparr>;
            s4 = gd_update_caption env s3
        in emit [TraceGrab (vc_label (vc s4 v)) ''ptr'' reason] s4)"

definition gd_ungrab_keyboard :: "host_env \<Rightarrow> GtkDisplayState \<Rightarrow> GtkDisplayState" where
  "gd_ungrab_keyboard env s =
     (case kbd_owner s of
        None \<Rightarrow> s
      | Some v \<Rightarrow>
          let s1 = s\<lparr>kbd_owner := None\<rparr>;
              s2 = gd_grab_update v False (ptr_owner s1 = Some v) s1;
              s3 = gd_update_caption env s2
          in emit [TraceUngrab (vc_label (vc s3 v)) ''kbd''] s3)"

definition gd_grab_keyboard :: "host_env \<Rightarrow> nat \<Rightarrow> string \<Rightarrow> GtkDisplayState \<Rightarrow> GtkDisplayState" where
  "gd_grab_keyboard env v reason s =
     (if kbd_owner s \<noteq> None \<and> kbd_owner s = Some v then s
      else
        let s0 = (if kbd_owner s \<noteq> None then gd_ungrab_keyboard env s else s);
            s1 = gd_grab_update v True (ptr_owner s0 = Some v) s0;
            s2 = s1\<lparr>kbd_owner := Some v\<rparr>;
            s3 = gd_update_caption env s2
        in emit [TraceGrab (vc_label (vc s3 v)) ''kbd'' reason] s3)"

text \<open>\<open>gd_update_cursor\<close>: hides or restores the cursor over one console's widget.\<close>

definition gd_update_cursor :: "host_env \<Rightarrow> nat \<Rightarrow> GtkDisplayState \<Rightarrow> GtkDisplayState" where
  "gd_update_cursor env v s =
     (if \<not> vc_is_gfx_widget (vc s v) \<or> \<not> vc_is_graphic (vc s v) then s
      else if \<not> vc_realized (vc s v) then s
      else if window_is_fullscreen env \<or> qemu_input_is_absolute env \<or> ptr_owner s = Some v
      then emit [WidgetSetCursor v NullCursor] s
      else emit [WidgetSetCursor v DefaultCursor] s)"

text \<open>
  \<open>gd_mouse_mode_change\<close>, the notifier called when the guest's pointer device changes
  between relative and absolute mode. For an owner without a window of its own it sets
  the state of the \<open>grab-input\<close> action through \<open>g_simple_action_set_state\<close>; for an owner
  with a window it calls \<open>gd_ungrab_pointer\<close>. Then it updates the cursor of every console.
\<close>

definition gd_mouse_mode_change :: "host_env \<Rightarrow> GtkDisplayState \<Rightarrow> GtkDisplayState" where
  "gd_mouse_mode_change env s =
     (let s1 = (case ptr_owner s of
                  None \<Rightarrow> s
                | Some p \<Rightarrow>
                    if qemu_input_is_absolute env then
                      (if \<not> vc_window (vc s p)
                       then emit [ActionSetState ''grab-input'' False] s
                       else gd_ungrab_pointer env s)
                    else s)
      in fold (gd_update_cursor env) [0..<nb_vcs s1] s1)"


text \<open>
  A run of the arbiter: any sequence of \<open>gd_grab_pointer\<close> and \<open>gd_ungrab_pointer\<close> calls,
  on any consoles.
\<close>

datatype grab_op = GrabPointer nat string | UngrabPointer

fun grab_step :: "host_env \<Rightarrow> grab_op \<Rightarrow> GtkDisplayState \<Rightarrow> GtkDisplayState" where
  "grab_step env (GrabPointer v reason) s = gd_grab_pointer env v reason s"
| "grab_step env UngrabPointer s = gd_ungrab_pointer env s"

definition run_grab_ops :: "host_env \<Rightarrow> grab_op list \<Rightarrow> GtkDisplayState \<Rightarrow> GtkDisplayState" where
  "run_grab_ops env ops s = fold (grab_step env) ops s"

text \<open>
  What a listener of the grab notifications sees: it keeps the labels of the consoles it
  has seen grab the pointer and not yet release it. \<open>never_two_holders\<close> follows a list of
  effects and says that at no moment the listener holds more than one console.
\<close>

fun observe_ptr :: "effect \<Rightarrow> string list \<Rightarrow> string list" where
  "observe_ptr (TraceGrab l k r) held = (if k = ''ptr'' then l # held else held)"
| "observe_ptr (TraceUngrab l k) held = (if k = ''ptr'' then remove1 l held else held)"
| "observe_ptr e held = held"

fun never_two_holders :: "string list \<Rightarrow> effect list \<Rightarrow> bool" where
  "never_two_holders held [] = (length held \<le> 1)"
| "never_two_holders held (e # es) =
     (length held \<le> 1 \<and> never_two_holders (observe_ptr e held) es)"

definition owner_labels :: "GtkDisplayState \<Rightarrow> string list" where
  "owner_labels s = (case ptr_owner s of None \<Rightarrow> [] | Some v \<Rightarrow> [vc_label (vc s v)])"

text \<open>
  The calls that an ungrab of console \<open>a\<close> and a grab by console \<open>b\<close> make, written out:
  the caption is redrawn with the owner cleared, and the release is traced; the pointer
  position is read, the caption is redrawn with the new owner, and the grab is traced.
\<close>

definition ungrab_sequence :: "host_env \<Rightarrow> GtkDisplayState \<Rightarrow> nat \<Rightarrow> effect list" where
  "ungrab_sequence env s a =
     caption_effects env (s\<lparr>ptr_owner := None\<rparr>) @ [TraceUngrab (vc_label (vc s a)) ''ptr'']"

definition grab_sequence :: "host_env \<Rightarrow> GtkDisplayState \<Rightarrow> nat \<Rightarrow> string \<Rightarrow> effect list" where
  "grab_sequence env s b reason =
     [DeviceGetSurfaceAtPosition] @ caption_effects env (s\<lparr>ptr_owner := Some b\<rparr>)
       @ [TraceGrab (vc_label (vc s b)) ''ptr'' reason]"

text \<open>The effects that a step from \<open>s\<close> to \<open>s'\<close> has added.\<close>

definition new_effects :: "GtkDisplayState \<Rightarrow> GtkDisplayState \<Rightarrow> effect list" where
  "new_effects s s' = drop (length (effects s)) (effects s')"

fun is_cursor_effect :: "effect \<Rightarrow> bool" where
  "is_cursor_effect (WidgetSetCursor v k) = True"
| "is_cursor_effect e = False"

text \<open>Effects that the listener of the grab notifications does not react to.\<close>

definition quiet :: "effect list \<Rightarrow> bool" where
  "quiet es = (\<forall>e \<in> set es. \<forall>h. observe_ptr e h = h)"

section \<open>Refresh interval and key map (ui/gtk4.c)\<close>

text \<open>
  The display-listener callbacks of one console act on the console's \<open>gfx\<close> state, on
  the guest's dma-bufs and on the outside world. \<open>console_index\<close> is what
  \<open>qemu_console_get_index(dcl->con)\<close> answers.
\<close>

record gl_console =
  gfx :: VirtualGfxConsole
  console_index :: nat
  dmabuf_store :: "nat \<Rightarrow> QemuDmaBuf"
  gl_effects :: "effect list"

definition gl_emit :: "effect list \<Rightarrow> gl_console \<Rightarrow> gl_console" where
  "gl_emit es c = c\<lparr>gl_effects := gl_effects c @ es\<rparr>"

text \<open>The \<open>MIN\<close> macro of GLib.\<close>

definition MIN_c :: "int \<Rightarrow> int \<Rightarrow> int" where
  "MIN_c a b = (if a < b then a else b)"

text \<open>
  \<open>gd_update_monitor_refresh_rate\<close>. The argument \<open>monitor\<close> is \<open>None\<close> when the widget has
  no native surface, and otherwise the refresh rate in mHz that GDK reports for the monitor
  at that surface. \<open>GUI_REFRESH_INTERVAL_DEFAULT\<close> is defined in ui/console.h, outside these
  sources, and is a parameter: an \<open>int\<close> constant, read with its sign. The division is
  C's, which truncates. The rate is a C \<open>int\<close>; no operation on it can overflow, so it is
  an \<open>int\<close> here. The expression has type \<open>int\<close> and is stored in
  \<open>dcl.update_interval\<close>, which is a \<open>uint64_t\<close>: the store converts it to 64 bits
  without sign, so that a negative value wraps around.
\<close>

definition gd_update_monitor_refresh_rate ::
  "32 word \<Rightarrow> int option \<Rightarrow> gl_console \<Rightarrow> gl_console" where
  "gd_update_monitor_refresh_rate GUI_REFRESH_INTERVAL_DEFAULT monitor c =
     (let refresh_rate = (case monitor of Some r \<Rightarrow> r | None \<Rightarrow> 0);
          c1 = gl_emit [DpySetUiInfoRefreshRate refresh_rate] c
      in c1\<lparr>gfx := (gfx c1)\<lparr>gfx_update_interval :=
            word_of_int
              (if refresh_rate \<noteq> 0
               then MIN_c (1000 * 1000 sdiv refresh_rate) (sint GUI_REFRESH_INTERVAL_DEFAULT)
               else sint GUI_REFRESH_INTERVAL_DEFAULT)\<rparr>\<rparr>)"

text \<open>
  The two static variables \<open>keycode_map\<close> and \<open>keycode_maplen\<close> (a \<open>size_t\<close>), set once by
  \<open>early_gtk_display_init\<close> from \<open>gd_get_keymap\<close>. The table
  \<open>qemu_input_map_xorgevdev_to_qcode\<close> is generated outside these sources and is a
  parameter. On another windowing system than Wayland \<open>gd_get_keymap\<close> returns the null
  pointer and does not write the length, which stays zero.
\<close>

record keymap_statics =
  keycode_map :: "16 word list option"
  keycode_maplen :: "64 word"

definition gd_get_keymap :: "bool \<Rightarrow> 16 word list \<Rightarrow> keymap_statics" where
  "gd_get_keymap is_wayland qemu_input_map_xorgevdev_to_qcode =
     (if is_wayland
      then \<lparr>keycode_map = Some qemu_input_map_xorgevdev_to_qcode,
            keycode_maplen = of_nat (length qemu_input_map_xorgevdev_to_qcode)\<rparr>
      else \<lparr>keycode_map = None, keycode_maplen = 0\<rparr>)"

text \<open>
  \<open>gd_map_keycode\<close>. The scancode is a C \<open>int\<close>; the comparison with the \<open>size_t\<close> length
  converts it to 64 bits unsigned, with sign extension. A read of the table is either
  inside the table, and gives its entry, or outside, which the model reports as
  \<open>ReadOutOfBounds\<close> with the index and the length of the table.
\<close>

datatype fault = ReadOutOfBounds int nat | NullDereference

definition gd_map_keycode :: "keymap_statics \<Rightarrow> 32 word \<Rightarrow> fault + 32 word" where
  "gd_map_keycode k scancode =
     (case keycode_map k of
        None \<Rightarrow> Inr 0
      | Some tbl \<Rightarrow>
          if (scast scancode :: 64 word) > keycode_maplen k then Inr 0
          else if 0 \<le> sint scancode \<and> nat (sint scancode) < length tbl
               then Inr (ucast (tbl ! nat (sint scancode)))
               else Inl (ReadOutOfBounds (sint scancode) (length tbl)))"

section \<open>The registered display listener (ui/gtk4-gfx-vc.c)\<close>

text \<open>
  Two files define static functions of the same name. The functions of ui/gtk4-gfx-vc.c,
  which that file registers in \<open>dcl_gl_area_ops\<close>, keep their names here; those of
  ui/gtk4-gl-area.c carry the suffix \<open>_glarea\<close>.
\<close>

definition gtk_gl_area_set_scanout_mode :: "bool \<Rightarrow> gl_console \<Rightarrow> gl_console" where
  "gtk_gl_area_set_scanout_mode scanout c =
     (if gfx_scanout_mode (gfx c) = scanout then c
      else
        let c1 = c\<lparr>gfx := (gfx c)\<lparr>gfx_scanout_mode := scanout\<rparr>\<rparr>
        in if \<not> gfx_scanout_mode (gfx c1)
           then (let c2 = gl_emit [EglFbDestroy] c1
                 in case gfx_ds (gfx c2) of
                      None \<Rightarrow> c2
                    | Some d \<Rightarrow> gl_emit [SurfaceGlDestroyTexture (Some d),
                                         SurfaceGlCreateTexture d] c2)
           else c1)"

definition gd_gl_area_scanout_disable :: "gl_console \<Rightarrow> gl_console" where
  "gd_gl_area_scanout_disable c = gtk_gl_area_set_scanout_mode False c"

definition set_scanout_rect ::
  "32 word \<Rightarrow> 32 word \<Rightarrow> 32 word \<Rightarrow> 32 word \<Rightarrow> bool \<Rightarrow> gl_console \<Rightarrow> gl_console" where
  "set_scanout_rect x y w h backing_y_0_top c =
     c\<lparr>gfx := (gfx c)\<lparr>gfx_x := x, gfx_y := y, gfx_w := w, gfx_h := h,
                       gfx_y0_top := backing_y_0_top\<rparr>\<rparr>"

definition gd_gl_area_scanout_texture ::
  "32 word \<Rightarrow> bool \<Rightarrow> 32 word \<Rightarrow> 32 word \<Rightarrow> 32 word \<Rightarrow> 32 word \<Rightarrow> 32 word \<Rightarrow> 32 word
     \<Rightarrow> gl_console \<Rightarrow> gl_console" where
  "gd_gl_area_scanout_texture backing_id backing_y_0_top backing_width backing_height x y w h c =
     (let c1 = set_scanout_rect x y w h backing_y_0_top c
      in if backing_id = 0 \<or> gfx_w (gfx c1) = 0 \<or> gfx_h (gfx c1) = 0
         then gtk_gl_area_set_scanout_mode False c1
         else gl_emit [EglFbSetupForTex backing_width backing_height backing_id False]
                (gtk_gl_area_set_scanout_mode True c1))"

text \<open>
  \<open>egl_dmabuf_import_texture\<close> belongs to ui/egl-helpers.c, outside these sources: it is
  the parameter \<open>import\<close>, which may rewrite the dma-buf it is given. The import has failed
  when the texture of the dma-buf is still zero afterwards.
\<close>

definition gd_gl_area_scanout_dmabuf ::
  "(QemuDmaBuf \<Rightarrow> QemuDmaBuf) \<Rightarrow> nat \<Rightarrow> gl_console \<Rightarrow> gl_console" where
  "gd_gl_area_scanout_dmabuf import dmabuf c =
     (let c1 = c\<lparr>dmabuf_store := (dmabuf_store c)(dmabuf := import (dmabuf_store c dmabuf))\<rparr>;
          d = dmabuf_store c1 dmabuf
      in if dmabuf_texture d = 0 then c1
         else
           let c2 = gd_gl_area_scanout_texture (dmabuf_texture d) False
                      (dmabuf_width d) (dmabuf_height d) 0 0 (dmabuf_width d) (dmabuf_height d) c1
           in if dmabuf_allow_fences d
              then c2\<lparr>gfx := (gfx c2)\<lparr>gfx_guest_fb_dmabuf := Some dmabuf\<rparr>\<rparr>
              else c2)"

text \<open>\<open>gd_gl_area_scanout_flush\<close> of ui/gtk4-gfx-vc.c: its body is one \<open>info_report\<close>.\<close>

definition gd_gl_area_scanout_flush ::
  "32 word \<Rightarrow> 32 word \<Rightarrow> 32 word \<Rightarrow> 32 word \<Rightarrow> gl_console \<Rightarrow> gl_console" where
  "gd_gl_area_scanout_flush x y w h c = c"

text \<open>
  \<open>gd_dpy_gfx_switch\<close>. \<open>UpdateWindowSize\<close> stands for the call of \<open>gd_update_windowsize\<close>,
  which asks GTK for a new size of the console's widget and window.
\<close>

definition gd_dpy_gfx_switch :: "DisplaySurface \<Rightarrow> gl_console \<Rightarrow> gl_console" where
  "gd_dpy_gfx_switch surface c =
     (let old_surface = gfx_ds (gfx c);
          c1 = gl_emit [SurfaceGlDestroyTexture (gfx_ds (gfx c))] c;
          c2 = c1\<lparr>gfx := (gfx c1)\<lparr>gfx_ds := Some surface\<rparr>\<rparr>
      in if is_placeholder surface \<and> console_index c2 \<noteq> 0
         then (let c3 = gl_emit [GlFiniShader] c2
               in c3\<lparr>gfx := (gfx c3)\<lparr>gfx_gls := False\<rparr>\<rparr>)
         else
           let c3 = (if \<not> gfx_gls (gfx c2)
                     then (let c' = gl_emit [GlInitShader] c2
                           in c'\<lparr>gfx := (gfx c')\<lparr>gfx_gls := True\<rparr>\<rparr>)
                     else if (case old_surface of
                                None \<Rightarrow> False
                              | Some old \<Rightarrow> surface_width old \<noteq> surface_width surface
                                          \<or> surface_height old \<noteq> surface_height surface)
                          then gl_emit [UpdateWindowSize] c2
                          else c2)
           in gl_emit [SurfaceGlCreateTexture surface] c3)"

section \<open>The GL area callbacks (ui/gtk4-gl-area.c)\<close>

definition gtk_gl_area_set_scanout_mode_glarea :: "bool \<Rightarrow> gl_console \<Rightarrow> gl_console" where
  "gtk_gl_area_set_scanout_mode_glarea scanout c =
     (if gfx_scanout_mode (gfx c) = scanout then c
      else
        let c1 = c\<lparr>gfx := (gfx c)\<lparr>gfx_scanout_mode := scanout\<rparr>\<rparr>
        in if \<not> gfx_scanout_mode (gfx c1) then gl_emit [EglFbDestroy] c1 else c1)"

text \<open>
  \<open>gd_hw_gl_flushed\<close>, the callback for a fence that has become ready. It follows
  \<open>guest_fb.dmabuf\<close> without a test.
\<close>

definition gd_hw_gl_flushed :: "gl_console \<Rightarrow> fault + gl_console" where
  "gd_hw_gl_flushed c =
     (case gfx_guest_fb_dmabuf (gfx c) of
        None \<Rightarrow> Inl NullDereference
      | Some dmabuf \<Rightarrow>
          let d = dmabuf_store c dmabuf;
              c1 = gl_emit [SetFdHandlerNull (dmabuf_fence_fd d), CloseFd (dmabuf_fence_fd d)] c;
              c2 = c1\<lparr>dmabuf_store := (dmabuf_store c1)(dmabuf := d\<lparr>dmabuf_fence_fd := -1\<rparr>)\<rparr>
          in Inr (gl_emit [GraphicHwGlBlock False] c2))"

definition gd_gl_area_switch :: "DisplaySurface \<Rightarrow> gl_console \<Rightarrow> gl_console" where
  "gd_gl_area_switch surface c =
     (let resized = (case gfx_ds (gfx c) of
                       None \<Rightarrow> True
                     | Some old \<Rightarrow> \<not> (surface_width old = surface_width surface
                                      \<and> surface_height old = surface_height surface));
          c1 = (if gfx_gls (gfx c)
                then gl_emit [SurfaceGlDestroyTexture (gfx_ds (gfx c)),
                              SurfaceGlCreateTexture surface] c
                else c);
          c2 = c1\<lparr>gfx := (gfx c1)\<lparr>gfx_ds := Some surface\<rparr>\<rparr>
      in if resized then gl_emit [UpdateWindowSize] c2 else c2)"

definition gd_gl_area_scanout_texture_glarea ::
  "32 word \<Rightarrow> bool \<Rightarrow> 32 word \<Rightarrow> 32 word \<Rightarrow> 32 word \<Rightarrow> 32 word \<Rightarrow> 32 word \<Rightarrow> 32 word
     \<Rightarrow> gl_console \<Rightarrow> gl_console" where
  "gd_gl_area_scanout_texture_glarea backing_id backing_y_0_top backing_width backing_height
       x y w h c =
     (let c1 = gl_emit [GlAreaMakeCurrent] (set_scanout_rect x y w h backing_y_0_top c)
      in if backing_id = 0 \<or> gfx_w (gfx c1) = 0 \<or> gfx_h (gfx c1) = 0
         then gtk_gl_area_set_scanout_mode_glarea False c1
         else gl_emit [EglFbSetupForTex backing_width backing_height backing_id False]
                (gtk_gl_area_set_scanout_mode_glarea True c1))"

definition gd_gl_area_scanout_flush_glarea ::
  "32 word \<Rightarrow> 32 word \<Rightarrow> 32 word \<Rightarrow> 32 word \<Rightarrow> gl_console \<Rightarrow> gl_console" where
  "gd_gl_area_scanout_flush_glarea x y w h c =
     (let c1 = (case gfx_guest_fb_dmabuf (gfx c) of
                  None \<Rightarrow> c
                | Some dmabuf \<Rightarrow>
                    if \<not> dmabuf_draw_submitted (dmabuf_store c dmabuf)
                    then (let c' = gl_emit [GraphicHwGlBlock True] c
                          in c'\<lparr>dmabuf_store := (dmabuf_store c')
                                 (dmabuf := (dmabuf_store c' dmabuf)\<lparr>dmabuf_draw_submitted := True\<rparr>)\<rparr>)
                    else c)
      in gl_emit [GlAreaQueueRender] c1)"



section \<open>Input routing (ui/gtk4-gfx-vc.c)\<close>

text \<open>
  \<open>gd_key_event\<close>. \<open>GDK_KEY_Pause\<close> comes from the GDK headers and is a parameter. The
  \<open>guint\<close> key code is handed to \<open>gd_map_keycode\<close> as an \<open>int\<close> of the same bits.
\<close>

definition gd_key_event ::
  "32 word \<Rightarrow> keymap_statics \<Rightarrow> 32 word \<Rightarrow> 32 word \<Rightarrow> bool \<Rightarrow> nat \<Rightarrow> GtkDisplayState
     \<Rightarrow> fault + GtkDisplayState" where
  "gd_key_event GDK_KEY_Pause k keyval keycode is_press v s =
     (if keyval = GDK_KEY_Pause
      then Inr (emit [KbdStateKeyEvent v Q_KEY_CODE_PAUSE is_press] s)
      else case gd_map_keycode k keycode of
             Inl f \<Rightarrow> Inl f
           | Inr qcode \<Rightarrow> Inr (emit [KbdStateKeyEvent v (QCode qcode) is_press] s))"

text \<open>
  \<open>gd_motion_event\<close> computes with \<open>double\<close>: the pointer position and the zoom factor
  \<open>self->scale\<close> are doubles. The three floating-point expressions of the function are
  parameters, for any type \<open>'d\<close> of doubles:
  \<^item> \<open>fp_trunc p\<close> is \<open>(int)p\<close>;
  \<open>fp_int_times n scale\<close> is \<open>n * scale\<close> converted to \<open>int\<close>;
  \<open>fp_unscale n scale ws\<close> is \<open>n / scale * ws\<close> converted to \<open>int\<close>.

  The integers of the function are \<open>int\<close>: the claim made about them does not depend on
  overflow. \<open>motion_geometry\<close> holds what the widget, its native surface and the monitor
  report.
\<close>

record 'd fp_ops =
  fp_trunc :: "'d \<Rightarrow> int"
  fp_int_times :: "int \<Rightarrow> 'd \<Rightarrow> int"
  fp_unscale :: "int \<Rightarrow> 'd \<Rightarrow> int \<Rightarrow> int"

record 'd motion_geometry =
  widget_scale :: 'd
  surface_ww :: int
  surface_wh :: int
  surface_ws :: int
  monitor_x :: int
  monitor_y :: int
  monitor_width :: int
  monitor_height :: int

definition letterbox :: "int \<Rightarrow> int \<Rightarrow> int" where
  "letterbox ww fbw = (if ww > fbw then (ww - fbw) sdiv 2 else 0)"

text \<open>The position of the event on the guest surface, lines 604 to 621 of the source.\<close>

definition surface_position ::
  "'d fp_ops \<Rightarrow> 'd motion_geometry \<Rightarrow> DisplaySurface \<Rightarrow> 'd \<Rightarrow> 'd \<Rightarrow> int \<times> int" where
  "surface_position fp g d pointer_x pointer_y =
     (let fbw = fp_int_times fp (surface_width d) (widget_scale g);
          fbh = fp_int_times fp (surface_height d) (widget_scale g);
          mx = letterbox (surface_ww g) fbw;
          my = letterbox (surface_wh g) fbh
      in (fp_unscale fp (fp_trunc fp pointer_x - mx) (widget_scale g) (surface_ws g),
          fp_unscale fp (fp_trunc fp pointer_y - my) (widget_scale g) (surface_ws g)))"

definition at_monitor_edge :: "'d motion_geometry \<Rightarrow> int \<Rightarrow> int \<Rightarrow> bool" where
  "at_monitor_edge g x y =
     (x \<le> monitor_x g \<or> x - monitor_x g \<ge> monitor_width g - 1 \<or>
      y \<le> monitor_y g \<or> y - monitor_y g \<ge> monitor_height g - 1)"

definition gd_motion_event ::
  "'d fp_ops \<Rightarrow> host_env \<Rightarrow> 'd motion_geometry \<Rightarrow> 'd \<Rightarrow> 'd \<Rightarrow> nat \<Rightarrow> GtkDisplayState
     \<Rightarrow> GtkDisplayState" where
  "gd_motion_event fp env g pointer_x pointer_y v s =
     (case gfx_ds (vc_gfx (vc s v)) of
        None \<Rightarrow> s
      | Some d \<Rightarrow>
          let (x, y) = surface_position fp g d pointer_x pointer_y
          in if qemu_input_is_absolute env \<and>
                (x < 0 \<or> y < 0 \<or> x \<ge> surface_width d \<or> y \<ge> surface_height d)
             then s
             else
               let s1 = (if qemu_input_is_absolute env
                         then emit [InputQueueAbs INPUT_AXIS_X x 0 (surface_width d),
                                    InputQueueAbs INPUT_AXIS_Y y 0 (surface_height d),
                                    InputEventSync] s
                         else if last_set s \<and> ptr_owner s = Some v
                         then emit [InputQueueRel INPUT_AXIS_X (x - last_x s),
                                    InputQueueRel INPUT_AXIS_Y (y - last_y s),
                                    InputEventSync] s
                         else s);
                   s2 = s1\<lparr>last_x := x, last_y := y, last_set := True\<rparr>
               in if \<not> qemu_input_is_absolute env \<and> ptr_owner s2 = Some v
                  then (if at_monitor_edge g (fp_trunc fp pointer_x) (fp_trunc fp pointer_y)
                        then s2\<lparr>last_set := False\<rparr>
                        else s2)
                  else s2)"

text \<open>The relative-axis events in a list of effects.\<close>

fun is_rel_event :: "effect \<Rightarrow> bool" where
  "is_rel_event (InputQueueRel a n) = True"
| "is_rel_event e = False"


section \<open>Runs of the GL callbacks\<close>

definition new_gl_effects :: "gl_console \<Rightarrow> gl_console \<Rightarrow> effect list" where
  "new_gl_effects c c' = drop (length (gl_effects c)) (gl_effects c')"

definition same_size :: "DisplaySurface \<Rightarrow> DisplaySurface \<Rightarrow> bool" where
  "same_size a b = (surface_width a = surface_width b \<and> surface_height a = surface_height b)"

text \<open>Any number of flushes, one after the other, each with its rectangle.\<close>

definition run_flushes_glarea ::
  "(32 word \<times> 32 word \<times> 32 word \<times> 32 word) list \<Rightarrow> gl_console \<Rightarrow> gl_console" where
  "run_flushes_glarea rects c =
     fold (\<lambda>(x, y, w, h). gd_gl_area_scanout_flush_glarea x y w h) rects c"

section \<open>Example states\<close>

text \<open>
  \<open>GtkDisplayState\<close> is allocated with \<open>g_malloc0\<close>: before the consoles are set up every
  field is zero. The examples below start from there.
\<close>

definition blank_gfx :: VirtualGfxConsole where
  "blank_gfx = \<lparr>gfx_ds = None, gfx_gls = False, gfx_glupdates = 0, gfx_x = 0, gfx_y = 0,
                gfx_w = 0, gfx_h = 0, gfx_guest_fb_dmabuf = None, gfx_y0_top = False,
                gfx_scanout_mode = False, gfx_has_dmabuf = False, gfx_update_interval = 0\<rparr>"

definition blank_dmabuf :: QemuDmaBuf where
  "blank_dmabuf = \<lparr>dmabuf_width = 0, dmabuf_height = 0, dmabuf_texture = 0,
                   dmabuf_fence_fd = 0, dmabuf_allow_fences = False,
                   dmabuf_draw_submitted = False\<rparr>"

definition blank_console :: gl_console where
  "blank_console = \<lparr>gfx = blank_gfx, console_index = 0, dmabuf_store = (\<lambda>a. blank_dmabuf),
                    gl_effects = []\<rparr>"

definition surface_800x600 :: DisplaySurface where
  "surface_800x600 = \<lparr>surface_width = 800, surface_height = 600, is_placeholder = False\<rparr>"

definition surface_640x480 :: DisplaySurface where
  "surface_640x480 = \<lparr>surface_width = 640, surface_height = 480, is_placeholder = False\<rparr>"

definition placeholder_640x480 :: DisplaySurface where
  "placeholder_640x480 = \<lparr>surface_width = 640, surface_height = 480, is_placeholder = True\<rparr>"

text \<open>
  A console that was given a scanout texture (texture 7, 1920 by 1080) before any display
  surface: it is in scanout mode and has no surface.
\<close>

definition scanout_console_no_surface :: gl_console where
  "scanout_console_no_surface =
     gd_gl_area_scanout_texture 7 False 1920 1080 0 0 1920 1080 blank_console"

text \<open>A console in scanout mode, showing an 800 by 600 surface, with its shader set up.\<close>

definition scanout_console_800x600 :: gl_console where
  "scanout_console_800x600 =
     blank_console\<lparr>gfx := blank_gfx\<lparr>gfx_ds := Some surface_800x600, gfx_gls := True,
                                      gfx_scanout_mode := True\<rparr>\<rparr>"

text \<open>
  The second console of a session (index 1) after its first surface switch, to a surface
  of 800 by 600: the switch has set up the shader.
\<close>

definition second_console_800x600 :: gl_console where
  "second_console_800x600 =
     gd_dpy_gfx_switch surface_800x600 (blank_console\<lparr>console_index := 1\<rparr>)"

text \<open>
  A dma-buf of 640 by 480 that allows fences (fence descriptor 7), one that does not, and
  an import that yields texture 5.
\<close>

definition fenced_dmabuf :: QemuDmaBuf where
  "fenced_dmabuf = \<lparr>dmabuf_width = 640, dmabuf_height = 480, dmabuf_texture = 0,
                    dmabuf_fence_fd = 7, dmabuf_allow_fences = True,
                    dmabuf_draw_submitted = False\<rparr>"


definition import_texture_5 :: "QemuDmaBuf \<Rightarrow> QemuDmaBuf" where
  "import_texture_5 d = d\<lparr>dmabuf_texture := 5\<rparr>"

text \<open>
  A console after the registered \<open>gd_gl_area_scanout_dmabuf\<close> has imported the fenced
  dma-buf at address 1: that dma-buf is its pending guest framebuffer.
\<close>

definition console_pending_fenced :: gl_console where
  "console_pending_fenced =
     gd_gl_area_scanout_dmabuf import_texture_5 1
       (blank_console\<lparr>dmabuf_store := (\<lambda>a. blank_dmabuf)(1 := fenced_dmabuf)\<rparr>)"


text \<open>
  A session with two graphic consoles: \<open>vc0\<close> in a tab of the main window, \<open>vc1\<close> detached
  into a window of its own.
\<close>

definition blank_vc :: VirtualConsole where
  "blank_vc = \<lparr>vc_label = [], vc_window = False, vc_index = 0, vc_is_gfx_widget = False,
               vc_is_graphic = False, vc_realized = False, vc_gfx = blank_gfx\<rparr>"

definition tabbed_vc0 :: VirtualConsole where
  "tabbed_vc0 = blank_vc\<lparr>vc_label := ''vc0'', vc_is_gfx_widget := True,
                         vc_is_graphic := True, vc_realized := True,
                         vc_gfx := blank_gfx\<lparr>gfx_ds := Some surface_800x600\<rparr>\<rparr>"

definition detached_vc1 :: VirtualConsole where
  "detached_vc1 = blank_vc\<lparr>vc_label := ''vc1'', vc_window := True, vc_index := 1,
                           vc_is_gfx_widget := True, vc_is_graphic := True,
                           vc_realized := True\<rparr>"

definition two_consoles :: GtkDisplayState where
  "two_consoles = \<lparr>nb_vcs = 2, vc = (\<lambda>i. blank_vc)(0 := tabbed_vc0, 1 := detached_vc1),
                   last_set = False, last_x = 0, last_y = 0, kbd_owner = None,
                   ptr_owner = None, effects = []\<rparr>"

definition env_relative :: host_env where
  "env_relative = \<lparr>qemu_input_is_absolute = False, runstate_is_running = True,
                   qemu_name = None, window_is_fullscreen = False\<rparr>"

definition env_absolute :: host_env where
  "env_absolute = env_relative\<lparr>qemu_input_is_absolute := True\<rparr>"

text \<open>
  Doubles stood in for by integers, with a zoom factor of 1 in a 1000 by 700 window on
  a 1920 by 1080 monitor.
\<close>

definition int_fp :: "int fp_ops" where
  "int_fp = \<lparr>fp_trunc = (\<lambda>p. p), fp_int_times = (\<lambda>n sc. n * sc),
             fp_unscale = (\<lambda>n sc ws. (n sdiv sc) * ws)\<rparr>"

definition geometry_1000x700 :: "int motion_geometry" where
  "geometry_1000x700 = \<lparr>widget_scale = 1, surface_ww = 1000, surface_wh = 700,
                        surface_ws = 1, monitor_x = 0, monitor_y = 0,
                        monitor_width = 1920, monitor_height = 1080\<rparr>"


text \<open>
  The same session with the pointer grabbed: by the detached console \<open>vc1\<close>, which has
  no display surface, and by the tabbed console \<open>vc0\<close>. The last pointer position is
  (390, 340).
\<close>

definition detached_owner :: GtkDisplayState where
  "detached_owner = two_consoles\<lparr>last_set := True, last_x := 390, last_y := 340,
                                  ptr_owner := Some 1\<rparr>"

definition tabbed_owner :: GtkDisplayState where
  "tabbed_owner = two_consoles\<lparr>last_set := True, last_x := 390, last_y := 340,
                                ptr_owner := Some 0\<rparr>"

section \<open>Basic facts\<close>

lemma set_scanout_rect_fields [simp]:
  "gfx_w (gfx (set_scanout_rect x y w h t c)) = w"
  "gfx_h (gfx (set_scanout_rect x y w h t c)) = h"
  "gfx_scanout_mode (gfx (set_scanout_rect x y w h t c)) = gfx_scanout_mode (gfx c)"
  "gfx_ds (gfx (set_scanout_rect x y w h t c)) = gfx_ds (gfx c)"
  "gfx_guest_fb_dmabuf (gfx (set_scanout_rect x y w h t c)) = gfx_guest_fb_dmabuf (gfx c)"
  "gl_effects (set_scanout_rect x y w h t c) = gl_effects c"
  "dmabuf_store (set_scanout_rect x y w h t c) = dmabuf_store c"
  by (simp_all add: set_scanout_rect_def)

lemma sint32_lower: "- (2 ^ 31) \<le> sint (sc :: 32 word)"
proof -
  have "- (2 ^ (LENGTH(32) - 1)) \<le> sint sc" by (rule sint_ge)
  then show ?thesis by simp
qed

lemma sint32_upper: "sint (sc :: 32 word) < 2 ^ 31"
proof -
  have "sint sc < 2 ^ (LENGTH(32) - 1)" by (rule sint_lt)
  then show ?thesis by simp
qed

section \<open>Refresh interval\<close>

lemma sdiv_million_nonneg: "0 \<le> rate \<Longrightarrow> 0 \<le> (1000 * 1000 :: int) sdiv rate"
  by (simp add: signed_divide_int_def sgn_if pos_imp_zdiv_nonneg_iff)

lemma word64_of_int_mono:
  assumes "0 \<le> a" "a \<le> b" "b < 2 ^ 31"
  shows "(word_of_int a :: 64 word) \<le> word_of_int b"
proof -
  have ua: "uint (word_of_int a :: 64 word) = a mod 2 ^ LENGTH(64)" by (rule uint_word_of_int)
  have ub: "uint (word_of_int b :: 64 word) = b mod 2 ^ LENGTH(64)" by (rule uint_word_of_int)
  have "a mod 2 ^ LENGTH(64) = a" using assms by (intro mod_pos_pos_trivial) simp_all
  moreover have "b mod 2 ^ LENGTH(64) = b" using assms by (intro mod_pos_pos_trivial) simp_all
  ultimately show ?thesis using assms unfolding word_le_def ua ub by simp
qed

lemma stored_interval:
  "gfx_update_interval (gfx (gd_update_monitor_refresh_rate dflt monitor c)) =
     (case monitor of
        None \<Rightarrow> word_of_int (sint dflt)
      | Some rate \<Rightarrow> if rate = 0 then word_of_int (sint dflt)
                     else word_of_int (min (1000 * 1000 sdiv rate) (sint dflt)))"
  by (simp add: gd_update_monitor_refresh_rate_def Let_def gl_emit_def MIN_c_def min_def
           split: option.split)

lemma min_interval_le_default:
  assumes "0 \<le> rate"
  shows "(word_of_int (min (1000 * 1000 sdiv rate) (sint (dflt :: 32 word))) :: 64 word)
           \<le> word_of_int (sint dflt)"
proof (cases "1000 * 1000 sdiv rate < sint dflt")
  case True
  have "0 \<le> (1000 * 1000 :: int) sdiv rate" using assms by (rule sdiv_million_nonneg)
  then have "(word_of_int (1000 * 1000 sdiv rate) :: 64 word) \<le> word_of_int (sint dflt)"
    using True sint32_upper [of dflt] by (intro word64_of_int_mono) simp_all
  then show ?thesis using True by (simp add: min_def)
next
  case False
  then show ?thesis by (simp add: min_def)
qed

text \<open>
  C9. The update interval that \<open>gd_update_monitor_refresh_rate\<close> stores is the default
  when the widget has no surface or the monitor reports the rate 0, and otherwise the
  smaller of \<open>1000 * 1000 / rate\<close> (C division) and the default, each converted to the
  64 bits without sign of \<open>dcl.update_interval\<close>. For every rate that is a frequency, that
  is, not negative, the stored interval is at most the stored default.
\<close>

theorem update_interval_from_refresh_rate:
  "gfx_update_interval (gfx (gd_update_monitor_refresh_rate dflt monitor c)) =
     (case monitor of
        None \<Rightarrow> word_of_int (sint dflt)
      | Some rate \<Rightarrow> if rate = 0 then word_of_int (sint dflt)
                     else word_of_int (min (1000 * 1000 sdiv rate) (sint dflt)))
   \<and> ((\<forall>rate. monitor = Some rate \<longrightarrow> 0 \<le> rate) \<longrightarrow>
        gfx_update_interval (gfx (gd_update_monitor_refresh_rate dflt monitor c))
          \<le> word_of_int (sint dflt))"
proof (intro conjI impI)
  show "gfx_update_interval (gfx (gd_update_monitor_refresh_rate dflt monitor c)) =
     (case monitor of
        None \<Rightarrow> word_of_int (sint dflt)
      | Some rate \<Rightarrow> if rate = 0 then word_of_int (sint dflt)
                     else word_of_int (min (1000 * 1000 sdiv rate) (sint dflt)))"
    by (rule stored_interval)
next
  assume h: "\<forall>rate. monitor = Some rate \<longrightarrow> 0 \<le> rate"
  show "gfx_update_interval (gfx (gd_update_monitor_refresh_rate dflt monitor c))
          \<le> word_of_int (sint dflt)"
  proof (cases monitor)
    case None
    then show ?thesis by (simp add: stored_interval)
  next
    case (Some rate)
    then have "0 \<le> rate" using h by simp
    from min_interval_le_default [OF this, of dflt] show ?thesis
      using Some by (simp add: stored_interval)
  qed
qed

theorem update_interval_from_refresh_rate_witness:
  "(0 :: int) \<le> 60000
   \<and> gfx_update_interval (gfx (gd_update_monitor_refresh_rate 30 (Some 60000) blank_console)) = 16
   \<and> gfx_update_interval (gfx (gd_update_monitor_refresh_rate 30 (Some 60000) blank_console))
        \<le> (30 :: 64 word)
   \<and> gfx_update_interval (gfx (gd_update_monitor_refresh_rate 30 None blank_console)) = 30
   \<and> gfx_update_interval (gfx (gd_update_monitor_refresh_rate 30 (Some 0) blank_console)) = 30"
  using update_interval_from_refresh_rate
          [where dflt = 30 and monitor = "Some 60000" and c = blank_console]
        update_interval_from_refresh_rate
          [where dflt = 30 and monitor = None and c = blank_console]
        update_interval_from_refresh_rate
          [where dflt = 30 and monitor = "Some 0" and c = blank_console]
  by (simp add: signed_divide_int_def)

text \<open>
  A negative rate is not a frequency. If the monitor reported one, the negative quotient
  would wrap around in the store: for -59940 mHz and a default of 30 the quotient is -16
  and the stored interval is \<open>2 ^ 64 - 16\<close>.
\<close>

lemma update_interval_negative_rate_wraps:
  "gfx_update_interval (gfx (gd_update_monitor_refresh_rate 30 (Some (- 59940)) blank_console))
     = 18446744073709551600"
  by (simp add: stored_interval signed_divide_int_def)

section \<open>Key map\<close>

text \<open>
  The comparison \<open>scancode > keycode_maplen\<close> is made on 64 bits without sign: it holds
  for a negative scancode and for one beyond the length of the table.
\<close>

lemma uint_scast_32_64: "uint (scast (sc :: 32 word) :: 64 word) = sint sc mod 2 ^ 64"
proof -
  have "uint (scast sc :: 64 word) = uint (word_of_int (sint sc) :: 64 word)"
    by (simp only: scast_eq)
  also have "\<dots> = sint sc mod 2 ^ LENGTH(64)" by (rule uint_word_of_int)
  finally show ?thesis by simp
qed

lemma uint_of_nat_64: "n < 2 ^ 31 \<Longrightarrow> uint (of_nat n :: 64 word) = int n"
proof -
  assume n: "n < 2 ^ 31"
  have "uint (of_nat n :: 64 word) = uint (word_of_int (int n) :: 64 word)" by simp
  also have "\<dots> = int n mod 2 ^ LENGTH(64)" by (rule uint_word_of_int)
  also have "\<dots> = int n" using n by (intro mod_pos_pos_trivial) simp_all
  finally show ?thesis .
qed

lemma scast_gt_maplen:
  assumes "n < 2 ^ 31"
  shows "((of_nat n :: 64 word) < (scast (sc :: 32 word) :: 64 word))
           \<longleftrightarrow> (sint sc < 0 \<or> int n < sint sc)"
proof -
  have m: "sint sc mod 2 ^ 64 = (if sint sc < 0 then 2 ^ 64 + sint sc else sint sc)"
  proof (cases "sint sc < 0")
    case True
    then have "0 \<le> 2 ^ 64 + sint sc" "2 ^ 64 + sint sc < 2 ^ 64" using sint32_lower [of sc] by simp_all
    then have "(2 ^ 64 + sint sc) mod 2 ^ 64 = 2 ^ 64 + sint sc" by (rule mod_pos_pos_trivial)
    then show ?thesis using True by simp
  next
    case False
    then have "sint sc mod 2 ^ 64 = sint sc" using sint32_upper [of sc] by (intro mod_pos_pos_trivial) simp_all
    then show ?thesis using False by simp
  qed
  show ?thesis
    unfolding word_less_def uint_scast_32_64 uint_of_nat_64 [OF assms] m using sint32_lower [of sc] sint32_upper [of sc] assms by auto
qed


lemma gd_map_keycode_cases:
  assumes "length tbl < 2 ^ 31"
  shows "gd_map_keycode (gd_get_keymap True tbl) sc =
           (if sint sc < 0 \<or> int (length tbl) < sint sc then Inr 0
            else if sint sc = int (length tbl)
                 then Inl (ReadOutOfBounds (sint sc) (length tbl))
                 else Inr (ucast (tbl ! nat (sint sc))))"
    and "gd_map_keycode (gd_get_keymap False tbl) sc = Inr 0"
  using assms scast_gt_maplen [of "length tbl" sc]
  by (auto simp: gd_map_keycode_def gd_get_keymap_def)

text \<open>
  C7. With a table of three entries loaded, the scancode 3 passes the test
  \<open>scancode > keycode_maplen\<close> and \<open>gd_map_keycode\<close> reads \<open>keycode_map[3]\<close>, one entry past
  the end of the table. By \<open>gd_map_keycode_cases\<close> the scancode equal to the length of the
  table is the only one that does so: below it the read is inside the table, above it and
  below zero the result is 0, and so it is when no table was loaded.
\<close>

theorem gd_map_keycode_reads_past_end:
  "gd_map_keycode (gd_get_keymap True [1, 2, 3]) 3 = Inl (ReadOutOfBounds 3 3)"
  by (simp add: gd_map_keycode_def gd_get_keymap_def)

section \<open>Scanout mode\<close>

text \<open>
  C10. Setting the scanout mode to the value it has returns the console as it is, in
  both files. If a call of \<open>gtk_gl_area_set_scanout_mode\<close> makes any call to the outside
  (the destruction of the guest framebuffer, the destruction and creation of the surface
  texture), then the mode was true and the requested mode is false.
\<close>

theorem set_scanout_mode_same_value_noop:
  "(gfx_scanout_mode (gfx c) = scanout \<longrightarrow>
      gtk_gl_area_set_scanout_mode scanout c = c \<and>
      gtk_gl_area_set_scanout_mode_glarea scanout c = c)
   \<and> (gl_effects (gtk_gl_area_set_scanout_mode scanout c) \<noteq> gl_effects c \<longrightarrow>
        gfx_scanout_mode (gfx c) \<and> \<not> scanout)
   \<and> (gl_effects (gtk_gl_area_set_scanout_mode_glarea scanout c) \<noteq> gl_effects c \<longrightarrow>
        gfx_scanout_mode (gfx c) \<and> \<not> scanout)"
  by (auto simp: gtk_gl_area_set_scanout_mode_def gtk_gl_area_set_scanout_mode_glarea_def
                 Let_def gl_emit_def split: option.splits)

theorem set_scanout_mode_same_value_noop_witness:
  "gfx_scanout_mode (gfx scanout_console_800x600) = True
   \<and> gtk_gl_area_set_scanout_mode True scanout_console_800x600 = scanout_console_800x600
   \<and> gtk_gl_area_set_scanout_mode_glarea True scanout_console_800x600 = scanout_console_800x600
   \<and> gl_effects (gtk_gl_area_set_scanout_mode False scanout_console_800x600)
        \<noteq> gl_effects scanout_console_800x600
   \<and> gl_effects (gtk_gl_area_set_scanout_mode_glarea False scanout_console_800x600)
        \<noteq> gl_effects scanout_console_800x600"
  using set_scanout_mode_same_value_noop [where c = scanout_console_800x600 and scanout = True]
  by (simp add: scanout_console_800x600_def blank_console_def blank_gfx_def
                gtk_gl_area_set_scanout_mode_def gtk_gl_area_set_scanout_mode_glarea_def
                gl_emit_def Let_def)

text \<open>
  C4, as stated, at a console that entered scanout mode before it was given a display
  surface: a scanout texture with id 0 takes the console out of scanout mode and destroys
  the guest framebuffer, and that is all: no surface texture is created.
\<close>

theorem scanout_texture_exit_without_surface_counterexample:
  "gfx_scanout_mode (gfx scanout_console_no_surface)
   \<and> \<not> gfx_scanout_mode
         (gfx (gd_gl_area_scanout_texture 0 False 0 0 0 0 0 0 scanout_console_no_surface))
   \<and> new_gl_effects scanout_console_no_surface
        (gd_gl_area_scanout_texture 0 False 0 0 0 0 0 0 scanout_console_no_surface)
       = [EglFbDestroy]"
  by (simp add: scanout_console_no_surface_def blank_console_def blank_gfx_def
                gd_gl_area_scanout_texture_def set_scanout_rect_def new_gl_effects_def
                gtk_gl_area_set_scanout_mode_def gl_emit_def Let_def)

text \<open>
  C4, amended. From any state, \<open>gd_gl_area_scanout_texture\<close> with texture id 0, or with
  \<open>w\<close> or \<open>h\<close> zero, leaves the console out of scanout mode. If the console was in scanout
  mode, the call destroys the guest framebuffer and then, when the console has a display
  surface, destroys and creates the texture of that surface; with no display surface it
  stops after the guest framebuffer.
\<close>

theorem scanout_texture_zero_leaves_scanout_mode:
  assumes "backing_id = 0 \<or> w = 0 \<or> h = 0"
  shows "\<not> gfx_scanout_mode (gfx (gd_gl_area_scanout_texture backing_id y0 bw bh x y w h c))
    \<and> (gfx_scanout_mode (gfx c) \<longrightarrow>
         gl_effects (gd_gl_area_scanout_texture backing_id y0 bw bh x y w h c) =
           gl_effects c @ EglFbDestroy #
             (case gfx_ds (gfx c) of
                None \<Rightarrow> []
              | Some d \<Rightarrow> [SurfaceGlDestroyTexture (Some d), SurfaceGlCreateTexture d]))"
  using assms
  by (auto simp: gd_gl_area_scanout_texture_def Let_def gtk_gl_area_set_scanout_mode_def
                 gl_emit_def split: option.splits)

theorem scanout_texture_zero_leaves_scanout_mode_witness:
  "((0::32 word) = 0 \<or> (0::32 word) = 0 \<or> (0::32 word) = 0)
   \<and> gfx_scanout_mode (gfx scanout_console_800x600)
   \<and> \<not> gfx_scanout_mode
         (gfx (gd_gl_area_scanout_texture 0 False 0 0 0 0 0 0 scanout_console_800x600))
   \<and> gl_effects (gd_gl_area_scanout_texture 0 False 0 0 0 0 0 0 scanout_console_800x600) =
       [EglFbDestroy, SurfaceGlDestroyTexture (Some surface_800x600),
        SurfaceGlCreateTexture surface_800x600]"
  using scanout_texture_zero_leaves_scanout_mode
    [where backing_id = 0 and w = 0 and h = 0 and c = scanout_console_800x600
       and ?y0.0 = False and bw = 0 and bh = 0 and x = 0 and y = 0]
  by (simp add: scanout_console_800x600_def blank_console_def blank_gfx_def)


section \<open>Surface switch\<close>

text \<open>
  C5, as stated, at the second console of a session, which shows an 800 by 600 surface
  and has its shader: a switch to a placeholder surface of 640 by 480 destroys the old
  texture, releases the shader and returns. The dimensions differ and no window resize is
  requested.
\<close>

theorem switch_placeholder_no_resize_counterexample:
  "gfx_ds (gfx second_console_800x600) = Some surface_800x600
   \<and> \<not> same_size surface_800x600 placeholder_640x480
   \<and> new_gl_effects second_console_800x600
        (gd_dpy_gfx_switch placeholder_640x480 second_console_800x600)
       = [SurfaceGlDestroyTexture (Some surface_800x600), GlFiniShader]"
  by (simp add: second_console_800x600_def blank_console_def blank_gfx_def same_size_def
                surface_800x600_def placeholder_640x480_def new_gl_effects_def
                gd_dpy_gfx_switch_def gl_emit_def Let_def)

text \<open>
  C5, amended. For a console that shows a surface \<open>old\<close>:
  a switch to a surface of the same width and height requests no window resize, in
  \<open>gd_dpy_gfx_switch\<close> and in \<open>gd_gl_area_switch\<close>;
  a switch to a surface of another width or height requests exactly one window resize in
  \<open>gd_dpy_gfx_switch\<close> when the console has its shader and the new surface is not a
  placeholder on a console other than the first, and exactly one in \<open>gd_gl_area_switch\<close>;
  a switch to a placeholder on a console other than the first requests none in
  \<open>gd_dpy_gfx_switch\<close>.
\<close>

theorem switch_resize_on_dimension_change:
  assumes "gfx_ds (gfx c) = Some old"
  shows "(same_size old surface \<longrightarrow>
            count_list (new_gl_effects c (gd_dpy_gfx_switch surface c)) UpdateWindowSize = 0
          \<and> count_list (new_gl_effects c (gd_gl_area_switch surface c)) UpdateWindowSize = 0)
       \<and> (\<not> same_size old surface \<and> gfx_gls (gfx c)
            \<and> \<not> (is_placeholder surface \<and> console_index c \<noteq> 0) \<longrightarrow>
            count_list (new_gl_effects c (gd_dpy_gfx_switch surface c)) UpdateWindowSize = 1)
       \<and> (is_placeholder surface \<and> console_index c \<noteq> 0 \<longrightarrow>
            count_list (new_gl_effects c (gd_dpy_gfx_switch surface c)) UpdateWindowSize = 0)
       \<and> (\<not> same_size old surface \<longrightarrow>
            count_list (new_gl_effects c (gd_gl_area_switch surface c)) UpdateWindowSize = 1)"
  using assms
  by (auto simp: new_gl_effects_def gd_dpy_gfx_switch_def gd_gl_area_switch_def gl_emit_def
                 Let_def same_size_def)

theorem switch_resize_on_dimension_change_witness:
  "gfx_ds (gfx second_console_800x600) = Some surface_800x600
   \<and> \<not> same_size surface_800x600 surface_640x480
   \<and> gfx_gls (gfx second_console_800x600)
   \<and> \<not> (is_placeholder surface_640x480 \<and> console_index second_console_800x600 \<noteq> 0)
   \<and> count_list (new_gl_effects second_console_800x600
                   (gd_dpy_gfx_switch surface_640x480 second_console_800x600))
        UpdateWindowSize = 1
   \<and> count_list (new_gl_effects second_console_800x600
                   (gd_gl_area_switch surface_640x480 second_console_800x600))
        UpdateWindowSize = 1
   \<and> same_size surface_800x600 surface_800x600
   \<and> count_list (new_gl_effects second_console_800x600
                   (gd_dpy_gfx_switch surface_800x600 second_console_800x600))
        UpdateWindowSize = 0
   \<and> is_placeholder placeholder_640x480 \<and> console_index second_console_800x600 \<noteq> 0
   \<and> count_list (new_gl_effects second_console_800x600
                   (gd_dpy_gfx_switch placeholder_640x480 second_console_800x600))
        UpdateWindowSize = 0"
  using switch_resize_on_dimension_change
          [where c = second_console_800x600 and old = surface_800x600 and surface = surface_640x480]
        switch_resize_on_dimension_change
          [where c = second_console_800x600 and old = surface_800x600 and surface = surface_800x600]
        switch_resize_on_dimension_change
          [where c = second_console_800x600 and old = surface_800x600 and surface = placeholder_640x480]
  by (simp add: second_console_800x600_def blank_console_def blank_gfx_def same_size_def
                surface_800x600_def surface_640x480_def placeholder_640x480_def
                gd_dpy_gfx_switch_def gl_emit_def Let_def)

section \<open>Flush and fences\<close>

text \<open>
  What \<open>gd_gl_area_scanout_flush\<close> of ui/gtk4-gl-area.c does when a dma-buf is pending:
  the first flush blocks the guest and marks the dma-buf as submitted, a second flush only
  queues a render. And what the fence callback \<open>gd_hw_gl_flushed\<close> does: it closes the
  fence descriptor once, stores -1 in its place and unblocks the guest.
\<close>

lemma glarea_flush_blocks_once:
  assumes "gfx_guest_fb_dmabuf (gfx c) = Some b"
  shows "new_gl_effects c (gd_gl_area_scanout_flush_glarea x y w h c) =
           (if dmabuf_draw_submitted (dmabuf_store c b) then [] else [GraphicHwGlBlock True])
           @ [GlAreaQueueRender]"
    and "dmabuf_draw_submitted (dmabuf_store (gd_gl_area_scanout_flush_glarea x y w h c) b)"
    and "gfx (gd_gl_area_scanout_flush_glarea x y w h c) = gfx c"
    and "new_gl_effects (gd_gl_area_scanout_flush_glarea x y w h c)
           (gd_gl_area_scanout_flush_glarea x' y' w' h' (gd_gl_area_scanout_flush_glarea x y w h c))
         = [GlAreaQueueRender]"
  using assms
  by (auto simp: new_gl_effects_def gd_gl_area_scanout_flush_glarea_def gl_emit_def Let_def)

lemma fence_ready_closes_once:
  assumes "gfx_guest_fb_dmabuf (gfx c) = Some b"
  shows "\<exists>c'. gd_hw_gl_flushed c = Inr c'
          \<and> new_gl_effects c c' = [SetFdHandlerNull (dmabuf_fence_fd (dmabuf_store c b)),
                                     CloseFd (dmabuf_fence_fd (dmabuf_store c b)),
                                     GraphicHwGlBlock False]
          \<and> dmabuf_fence_fd (dmabuf_store c' b) = -1"
  using assms
  by (simp add: new_gl_effects_def gd_hw_gl_flushed_def gl_emit_def Let_def)

text \<open>
  C2. The console's pending guest framebuffer is the dma-buf at address 1, which allows
  fences and has not been submitted. The flush that ui/gtk4-gfx-vc.c registers as
  \<open>dpy_gl_update\<close> leaves the dma-buf unsubmitted and calls nothing: no block signal, no
  redraw. The function of the same name in ui/gtk4-gl-area.c, on the same console, marks
  the dma-buf as submitted, blocks the guest and queues a render.
\<close>

theorem registered_flush_ignores_pending_fence:
  "gfx_guest_fb_dmabuf (gfx console_pending_fenced) = Some 1
   \<and> dmabuf_allow_fences (dmabuf_store console_pending_fenced 1)
   \<and> \<not> dmabuf_draw_submitted (dmabuf_store console_pending_fenced 1)
   \<and> \<not> dmabuf_draw_submitted
         (dmabuf_store (gd_gl_area_scanout_flush 0 0 640 480 console_pending_fenced) 1)
   \<and> new_gl_effects console_pending_fenced
        (gd_gl_area_scanout_flush 0 0 640 480 console_pending_fenced) = []
   \<and> dmabuf_draw_submitted
         (dmabuf_store (gd_gl_area_scanout_flush_glarea 0 0 640 480 console_pending_fenced) 1)
   \<and> new_gl_effects console_pending_fenced
        (gd_gl_area_scanout_flush_glarea 0 0 640 480 console_pending_fenced)
       = [GraphicHwGlBlock True, GlAreaQueueRender]"
  by (simp add: console_pending_fenced_def blank_console_def blank_gfx_def fenced_dmabuf_def
                import_texture_5_def gd_gl_area_scanout_dmabuf_def
                gd_gl_area_scanout_texture_def set_scanout_rect_def
                gtk_gl_area_set_scanout_mode_def
                new_gl_effects_def gd_gl_area_scanout_flush_def
                gd_gl_area_scanout_flush_glarea_def gl_emit_def Let_def)

section \<open>Import of a dma-buf\<close>

lemma set_scanout_mode_keeps_dmabuf [simp]:
  "gfx_guest_fb_dmabuf (gfx (gtk_gl_area_set_scanout_mode m c)) = gfx_guest_fb_dmabuf (gfx c)"
  "dmabuf_store (gtk_gl_area_set_scanout_mode m c) = dmabuf_store c"
  "gfx_guest_fb_dmabuf (gfx (gtk_gl_area_set_scanout_mode_glarea m c)) = gfx_guest_fb_dmabuf (gfx c)"
  "dmabuf_store (gtk_gl_area_set_scanout_mode_glarea m c) = dmabuf_store c"
  by (simp_all add: gtk_gl_area_set_scanout_mode_def gtk_gl_area_set_scanout_mode_glarea_def
                    gl_emit_def Let_def split: option.splits)

lemma scanout_texture_keeps_dmabuf [simp]:
  "gfx_guest_fb_dmabuf (gfx (gd_gl_area_scanout_texture i t bw bh x y w h c))
     = gfx_guest_fb_dmabuf (gfx c)"
  "dmabuf_store (gd_gl_area_scanout_texture i t bw bh x y w h c) = dmabuf_store c"
  "gfx_guest_fb_dmabuf (gfx (gd_gl_area_scanout_texture_glarea i t bw bh x y w h c))
     = gfx_guest_fb_dmabuf (gfx c)"
  "dmabuf_store (gd_gl_area_scanout_texture_glarea i t bw bh x y w h c) = dmabuf_store c"
  by (simp_all add: gd_gl_area_scanout_texture_def gd_gl_area_scanout_texture_glarea_def
                    gl_emit_def Let_def)

lemma flush_glarea_gfx [simp]:
  "gfx (gd_gl_area_scanout_flush_glarea x y w h c) = gfx c"
  by (simp add: gd_gl_area_scanout_flush_glarea_def gl_emit_def Let_def split: option.splits)

lemma run_flushes_glarea_gfx [simp]: "gfx (run_flushes_glarea rects c) = gfx c"
  unfolding run_flushes_glarea_def
  by (induction rects arbitrary: c) auto











section \<open>Pointer grab\<close>

lemma caption_effects_cong:
  assumes "nb_vcs s' = nb_vcs s" "vc s' = vc s" "kbd_owner s' = kbd_owner s"
    "ptr_owner s' = ptr_owner s"
  shows "caption_effects env s' = caption_effects env s"
  unfolding caption_effects_def caption_title_def assms ..

lemma caption_effects_effects_update [simp]:
  "caption_effects env (s\<lparr>effects := es\<rparr>) = caption_effects env s"
  "caption_effects env (s\<lparr>effects := es, ptr_owner := p\<rparr>)
     = caption_effects env (s\<lparr>ptr_owner := p\<rparr>)"
  by (rule caption_effects_cong; simp)+

lemma ungrab_pointer_effects:
  "ptr_owner s = Some a \<Longrightarrow>
     effects (gd_ungrab_pointer env s) = effects s @ ungrab_sequence env s a"
  by (simp add: gd_ungrab_pointer_def Let_def gd_grab_update_def gd_update_caption_def
                emit_def ungrab_sequence_def)

lemma ungrab_pointer_fields:
  "ptr_owner (gd_ungrab_pointer env s) = None"
  "vc (gd_ungrab_pointer env s) = vc s"
  "nb_vcs (gd_ungrab_pointer env s) = nb_vcs s"
  "kbd_owner (gd_ungrab_pointer env s) = kbd_owner s"
  by (simp_all add: gd_ungrab_pointer_def Let_def gd_grab_update_def gd_update_caption_def
                    emit_def split: option.splits)

lemma ungrab_pointer_unowned: "ptr_owner s = None \<Longrightarrow> gd_ungrab_pointer env s = s"
  by (simp add: gd_ungrab_pointer_def)

lemma grab_pointer_owner: "ptr_owner s = Some b \<Longrightarrow> gd_grab_pointer env b reason s = s"
  by (simp add: gd_grab_pointer_def)

lemma grab_pointer_unowned_effects:
  "ptr_owner s = None \<Longrightarrow>
     effects (gd_grab_pointer env b reason s) = effects s @ grab_sequence env s b reason"
  by (simp add: gd_grab_pointer_def Let_def gd_grab_update_def gd_update_caption_def
                emit_def grab_sequence_def)

lemma grab_pointer_transfer:
  "ptr_owner s = Some a \<Longrightarrow> a \<noteq> b \<Longrightarrow>
     gd_grab_pointer env b reason s = gd_grab_pointer env b reason (gd_ungrab_pointer env s)"
  by (simp add: gd_grab_pointer_def ungrab_pointer_fields ungrab_pointer_unowned)

lemma grab_pointer_transfer_effects:
  assumes "ptr_owner s = Some a" "a \<noteq> b"
  shows "effects (gd_grab_pointer env b reason s) =
           effects (gd_ungrab_pointer env s) @ grab_sequence env s b reason"
proof -
  have "grab_sequence env (gd_ungrab_pointer env s) b reason = grab_sequence env s b reason"
    by (simp add: grab_sequence_def ungrab_pointer_fields caption_effects_cong)
  then show ?thesis
    using assms grab_pointer_unowned_effects [of "gd_ungrab_pointer env s" env b reason]
    by (simp add: grab_pointer_transfer ungrab_pointer_fields)
qed

lemma grab_pointer_fields:
  "ptr_owner (gd_grab_pointer env b reason s) = Some b"
  "vc (gd_grab_pointer env b reason s) = vc s"
  by (simp_all add: gd_grab_pointer_def Let_def gd_grab_update_def gd_update_caption_def
                    emit_def ungrab_pointer_fields)

lemma quiet_fold: "quiet es \<Longrightarrow> fold observe_ptr es h = h"
  by (induction es arbitrary: h) (auto simp: quiet_def)

lemma quiet_never_two: "quiet es \<Longrightarrow> never_two_holders h es = (length h \<le> 1)"
  by (induction es arbitrary: h) (auto simp: quiet_def)

lemma quiet_caption: "quiet (caption_effects env s)"
  by (auto simp: quiet_def caption_effects_def Let_def)

lemma never_two_holders_append:
  "never_two_holders h (xs @ ys) =
     (never_two_holders h xs \<and> never_two_holders (fold observe_ptr xs h) ys)"
proof (induction xs arbitrary: h)
  case Nil
  show ?case by (cases ys) auto
next
  case (Cons x xs)
  then show ?case by auto
qed

lemma ungrab_sequence_observed:
  "never_two_holders [l] (ungrab_sequence env s a)"
  "vc_label (vc s a) = l \<Longrightarrow> fold observe_ptr (ungrab_sequence env s a) [l] = []"
  by (simp_all add: ungrab_sequence_def never_two_holders_append quiet_fold quiet_never_two
                    quiet_caption)

lemma grab_sequence_observed:
  "never_two_holders [] (grab_sequence env s b reason)"
  "fold observe_ptr (grab_sequence env s b reason) [] = [vc_label (vc s b)]"
  by (simp_all add: grab_sequence_def never_two_holders_append quiet_fold quiet_never_two
                    quiet_caption)

lemma grab_step_observed:
  "\<exists>es. effects (grab_step env op s) = effects s @ es
        \<and> never_two_holders (owner_labels s) es
        \<and> fold observe_ptr es (owner_labels s) = owner_labels (grab_step env op s)"
proof (cases op)
  case UngrabPointer
  show ?thesis
  proof (cases "ptr_owner s")
    case None
    then show ?thesis
      using UngrabPointer by (simp add: ungrab_pointer_unowned owner_labels_def)
  next
    case (Some a)
    then show ?thesis
      using UngrabPointer
      by (simp add: ungrab_pointer_effects owner_labels_def ungrab_pointer_fields
                    ungrab_sequence_observed)
  qed
next
  case (GrabPointer b reason)
  show ?thesis
  proof (cases "ptr_owner s")
    case None
    then show ?thesis
      using GrabPointer
      by (simp add: grab_pointer_unowned_effects owner_labels_def grab_pointer_fields
                    grab_sequence_observed)
  next
    case (Some a)
    show ?thesis
    proof (cases "a = b")
      case True
      then show ?thesis
        using Some GrabPointer by (simp add: grab_pointer_owner owner_labels_def)
    next
      case False
      then show ?thesis
        using Some GrabPointer
        by (simp add: grab_pointer_transfer_effects ungrab_pointer_effects owner_labels_def
                      grab_pointer_fields never_two_holders_append ungrab_sequence_observed
                      grab_sequence_observed)
    qed
  qed
qed


lemma run_grab_ops_observed:
  "\<exists>es. effects (run_grab_ops env ops s) = effects s @ es
        \<and> never_two_holders (owner_labels s) es
        \<and> fold observe_ptr es (owner_labels s) = owner_labels (run_grab_ops env ops s)"
proof (induction ops arbitrary: s)
  case Nil
  show ?case by (simp add: run_grab_ops_def owner_labels_def split: option.split)
next
  case (Cons op ops)
  obtain es1 where e1: "effects (grab_step env op s) = effects s @ es1"
      and n1: "never_two_holders (owner_labels s) es1"
      and f1: "fold observe_ptr es1 (owner_labels s) = owner_labels (grab_step env op s)"
    using grab_step_observed [of env op s] by (elim exE conjE)
  obtain es2 where e2: "effects (run_grab_ops env ops (grab_step env op s))
                          = effects (grab_step env op s) @ es2"
      and n2: "never_two_holders (owner_labels (grab_step env op s)) es2"
      and f2: "fold observe_ptr es2 (owner_labels (grab_step env op s))
                 = owner_labels (run_grab_ops env ops (grab_step env op s))"
    using Cons.IH [of "grab_step env op s"] by (elim exE conjE)
  have run: "run_grab_ops env (op # ops) s = run_grab_ops env ops (grab_step env op s)"
    by (simp add: run_grab_ops_def)
  have "effects (run_grab_ops env (op # ops) s) = effects s @ (es1 @ es2)"
    by (simp add: run e1 e2)
  moreover have "never_two_holders (owner_labels s) (es1 @ es2)"
    by (simp add: never_two_holders_append n1 n2 f1)
  moreover have "fold observe_ptr (es1 @ es2) (owner_labels s)
                   = owner_labels (run_grab_ops env (op # ops) s)"
    by (simp add: run f1 f2)
  ultimately show ?case by blast
qed

text \<open>
  C3. For every sequence of \<open>gd_grab_pointer\<close> and \<open>gd_ungrab_pointer\<close> calls, on any
  consoles and from any state, a listener that starts with the current owner and follows
  the grab and ungrab notifications of the run never holds two consoles at once, and ends
  with the owner of the final state.
  A grab by the console that owns the pointer returns the state as it is.
  A grab by console \<open>b\<close> while another console \<open>a\<close> owns the pointer is the ungrab of \<open>a\<close>
  followed by a grab from the unowned state: the owner is cleared, the caption is redrawn
  without an owner and the release of \<open>a\<close> is traced, and only then the position is read, the
  owner becomes \<open>b\<close>, the caption is redrawn and the grab is traced.
\<close>

theorem pointer_grab_single_owner:
  "(\<exists>es. effects (run_grab_ops env ops s) = effects s @ es
         \<and> never_two_holders (owner_labels s) es
         \<and> fold observe_ptr es (owner_labels s) = owner_labels (run_grab_ops env ops s))
   \<and> (ptr_owner s = Some b \<longrightarrow> gd_grab_pointer env b reason s = s)
   \<and> (ptr_owner s = Some a \<and> a \<noteq> b \<longrightarrow>
        gd_grab_pointer env b reason s = gd_grab_pointer env b reason (gd_ungrab_pointer env s)
        \<and> ptr_owner (gd_ungrab_pointer env s) = None
        \<and> effects (gd_ungrab_pointer env s) = effects s @ ungrab_sequence env s a
        \<and> effects (gd_grab_pointer env b reason s)
            = effects (gd_ungrab_pointer env s) @ grab_sequence env s b reason
        \<and> ptr_owner (gd_grab_pointer env b reason s) = Some b)"
proof (intro conjI impI)
  show "\<exists>es. effects (run_grab_ops env ops s) = effects s @ es
         \<and> never_two_holders (owner_labels s) es
         \<and> fold observe_ptr es (owner_labels s) = owner_labels (run_grab_ops env ops s)"
    by (rule run_grab_ops_observed)
next
  assume "ptr_owner s = Some b"
  then show "gd_grab_pointer env b reason s = s" by (rule grab_pointer_owner)
next
  assume h: "ptr_owner s = Some a \<and> a \<noteq> b"
  then show "gd_grab_pointer env b reason s
               = gd_grab_pointer env b reason (gd_ungrab_pointer env s)"
    by (simp add: grab_pointer_transfer)
  show "ptr_owner (gd_ungrab_pointer env s) = None" by (rule ungrab_pointer_fields)
  from h show "effects (gd_ungrab_pointer env s) = effects s @ ungrab_sequence env s a"
    by (simp add: ungrab_pointer_effects)
  from h show "effects (gd_grab_pointer env b reason s)
                 = effects (gd_ungrab_pointer env s) @ grab_sequence env s b reason"
    by (simp add: grab_pointer_transfer_effects)
  show "ptr_owner (gd_grab_pointer env b reason s) = Some b" by (rule grab_pointer_fields)
qed


theorem pointer_grab_single_owner_witness:
  "ptr_owner tabbed_owner = Some 0 \<and> (0::nat) \<noteq> 1
   \<and> gd_grab_pointer env_relative 0 ''test'' tabbed_owner = tabbed_owner
   \<and> ptr_owner (gd_ungrab_pointer env_relative tabbed_owner) = None
   \<and> effects (gd_grab_pointer env_relative 1 ''test'' tabbed_owner)
       = effects (gd_ungrab_pointer env_relative tabbed_owner)
           @ grab_sequence env_relative tabbed_owner 1 ''test''
   \<and> ptr_owner (gd_grab_pointer env_relative 1 ''test'' tabbed_owner) = Some 1"
proof -
  have o: "ptr_owner tabbed_owner = Some 0"
    by (simp add: tabbed_owner_def two_consoles_def)
  have n: "(0::nat) \<noteq> 1" by simp
  have idem: "gd_grab_pointer env_relative 0 ''test'' tabbed_owner = tabbed_owner"
    using o pointer_grab_single_owner
            [where s = tabbed_owner and a = 0 and b = 0 and env = env_relative
               and reason = "''test''" and ops = "[]"]
    by blast
  have transfer:
    "ptr_owner (gd_ungrab_pointer env_relative tabbed_owner) = None
     \<and> effects (gd_grab_pointer env_relative 1 ''test'' tabbed_owner)
         = effects (gd_ungrab_pointer env_relative tabbed_owner)
             @ grab_sequence env_relative tabbed_owner 1 ''test''
     \<and> ptr_owner (gd_grab_pointer env_relative 1 ''test'' tabbed_owner) = Some 1"
    using o n pointer_grab_single_owner
            [where s = tabbed_owner and a = 0 and b = 1 and env = env_relative
               and reason = "''test''" and ops = "[]"]
    by blast
  show ?thesis using o n idem transfer by blast
qed

section \<open>Change of the pointer mode\<close>

lemma update_cursor_fields [simp]:
  "ptr_owner (gd_update_cursor env v s) = ptr_owner s"
  by (simp add: gd_update_cursor_def emit_def)

lemma update_cursor_effects:
  "\<exists>es. effects (gd_update_cursor env v s) = effects s @ es \<and> list_all is_cursor_effect es"
  by (simp add: gd_update_cursor_def emit_def)

lemma fold_update_cursor_ptr_owner [simp]:
  "ptr_owner (fold (gd_update_cursor env) vs s) = ptr_owner s"
  by (induction vs arbitrary: s) simp_all

lemma fold_update_cursor_effects:
  "\<exists>es. effects (fold (gd_update_cursor env) vs s) = effects s @ es
        \<and> list_all is_cursor_effect es"
proof (induction vs arbitrary: s)
  case Nil
  show ?case by simp
next
  case (Cons v vs)
  obtain es1 where e1: "effects (gd_update_cursor env v s) = effects s @ es1"
      and c1: "list_all is_cursor_effect es1"
    using update_cursor_effects [of env v s] by (elim exE conjE)
  obtain es2 where e2: "effects (fold (gd_update_cursor env) vs (gd_update_cursor env v s))
                          = effects (gd_update_cursor env v s) @ es2"
      and c2: "list_all is_cursor_effect es2"
    using Cons.IH [of "gd_update_cursor env v s"] by (elim exE conjE)
  have "effects (fold (gd_update_cursor env) (v # vs) s) = effects s @ (es1 @ es2)"
    by (simp add: e1 e2)
  moreover have "list_all is_cursor_effect (es1 @ es2)"
    by (simp add: c1 c2)
  ultimately show ?case by blast
qed

text \<open>
  C1, as stated, at a session in which the detached console \<open>vc1\<close> holds the pointer
  grab: after the change to absolute mode nobody owns the pointer.
\<close>

theorem mouse_mode_change_detached_counterexample:
  "qemu_input_is_absolute env_absolute
   \<and> ptr_owner detached_owner = Some 1
   \<and> vc_window (vc detached_owner 1)
   \<and> ptr_owner (gd_mouse_mode_change env_absolute detached_owner) = None"
  by (simp add: env_absolute_def env_relative_def detached_owner_def two_consoles_def
                detached_vc1_def blank_vc_def gd_mouse_mode_change_def Let_def
                ungrab_pointer_fields)

text \<open>
  C1, amended. When the pointer mode has become absolute and the console that holds the
  pointer grab has a top-level window of its own, \<open>gd_mouse_mode_change\<close> runs the ungrab
  sequence (the caption is redrawn with the owner cleared, the release is traced) before
  it updates the cursors, and leaves the pointer without an owner. When the mode is not
  absolute, or when no console holds the grab, the owner is unchanged.
\<close>

theorem mouse_mode_change_releases_detached:
  "(qemu_input_is_absolute env \<and> ptr_owner s = Some p \<and> vc_window (vc s p) \<longrightarrow>
      ptr_owner (gd_mouse_mode_change env s) = None
      \<and> (\<exists>cursors. effects (gd_mouse_mode_change env s)
                      = effects s @ ungrab_sequence env s p @ cursors
                    \<and> list_all is_cursor_effect cursors))
   \<and> (\<not> qemu_input_is_absolute env \<or> ptr_owner s = None \<longrightarrow>
        ptr_owner (gd_mouse_mode_change env s) = ptr_owner s)"
proof (intro conjI impI)
  assume h: "qemu_input_is_absolute env \<and> ptr_owner s = Some p \<and> vc_window (vc s p)"
  then have eq: "gd_mouse_mode_change env s
                   = fold (gd_update_cursor env) [0..<nb_vcs s] (gd_ungrab_pointer env s)"
    by (simp add: gd_mouse_mode_change_def Let_def ungrab_pointer_fields)
  show "ptr_owner (gd_mouse_mode_change env s) = None"
    by (simp add: eq ungrab_pointer_fields)
  obtain cs where "effects (fold (gd_update_cursor env) [0..<nb_vcs s] (gd_ungrab_pointer env s))
                     = effects (gd_ungrab_pointer env s) @ cs"
      and "list_all is_cursor_effect cs"
    using fold_update_cursor_effects [of env "[0..<nb_vcs s]" "gd_ungrab_pointer env s"]
    by (elim exE conjE)
  then have "effects (gd_mouse_mode_change env s) = effects s @ ungrab_sequence env s p @ cs
             \<and> list_all is_cursor_effect cs"
    using h by (simp add: eq ungrab_pointer_effects)
  then show "\<exists>cursors. effects (gd_mouse_mode_change env s)
                      = effects s @ ungrab_sequence env s p @ cursors
                    \<and> list_all is_cursor_effect cursors"
    by blast
next
  assume "\<not> qemu_input_is_absolute env \<or> ptr_owner s = None"
  then show "ptr_owner (gd_mouse_mode_change env s) = ptr_owner s"
    by (auto simp: gd_mouse_mode_change_def Let_def split: option.splits)
qed

theorem mouse_mode_change_releases_detached_witness:
  "qemu_input_is_absolute env_absolute
   \<and> ptr_owner detached_owner = Some 1
   \<and> vc_window (vc detached_owner 1)
   \<and> ptr_owner (gd_mouse_mode_change env_absolute detached_owner) = None
   \<and> \<not> qemu_input_is_absolute env_relative
   \<and> ptr_owner (gd_mouse_mode_change env_relative detached_owner) = Some 1"
  using mouse_mode_change_releases_detached
          [where env = env_absolute and s = detached_owner and p = 1]
        mouse_mode_change_releases_detached
          [where env = env_relative and s = detached_owner and p = 1]
  by (simp add: env_absolute_def env_relative_def detached_owner_def two_consoles_def
                detached_vc1_def blank_vc_def)

text \<open>
  For an owner in a tab of the main window the handler sets the state of the
  \<open>grab-input\<close> action and updates the cursors; it does not call \<open>gd_ungrab_pointer\<close>.
\<close>

lemma mouse_mode_change_tabbed_owner:
  "ptr_owner (gd_mouse_mode_change env_absolute tabbed_owner) = Some 0
   \<and> new_effects tabbed_owner (gd_mouse_mode_change env_absolute tabbed_owner)
       = [ActionSetState ''grab-input'' False,
          WidgetSetCursor 0 NullCursor, WidgetSetCursor 1 NullCursor]"
  by (simp add: env_absolute_def env_relative_def tabbed_owner_def two_consoles_def
                tabbed_vc0_def detached_vc1_def blank_vc_def gd_mouse_mode_change_def Let_def
                gd_update_cursor_def emit_def new_effects_def upt_rec)

section \<open>Pointer motion\<close>

text \<open>
  C8, as stated, at the detached console \<open>vc1\<close>, which owns the pointer and has no
  display surface, in relative mode with a valid last position: the motion handler
  returns at once and queues nothing.
\<close>

theorem relative_motion_without_surface_counterexample:
  "\<not> qemu_input_is_absolute env_relative
   \<and> last_set detached_owner
   \<and> ptr_owner detached_owner = Some 1
   \<and> new_effects detached_owner
        (gd_motion_event int_fp env_relative geometry_1000x700 500 400 1 detached_owner) = []"
  by (simp add: env_relative_def detached_owner_def two_consoles_def detached_vc1_def
                blank_vc_def blank_gfx_def gd_motion_event_def new_effects_def)

text \<open>
  C8, amended. In relative mode, when the console has a display surface, the last
  position is valid and the console owns the pointer, \<open>gd_motion_event\<close> queues exactly
  a relative event for the X axis, one for the Y axis and a sync, in this order; the
  deltas are the position of the event on the guest surface (after the letterbox offset
  and the scale conversion) minus the last position.
  In any mode and state, when the console does not own the pointer or the last position
  is not valid, no relative event is queued.
\<close>

theorem relative_motion_delta:
  "(gfx_ds (vc_gfx (vc s v)) = Some d \<and> \<not> qemu_input_is_absolute env
      \<and> last_set s \<and> ptr_owner s = Some v \<longrightarrow>
        new_effects s (gd_motion_event fp env g pointer_x pointer_y v s) =
          [InputQueueRel INPUT_AXIS_X (fst (surface_position fp g d pointer_x pointer_y) - last_x s),
           InputQueueRel INPUT_AXIS_Y (snd (surface_position fp g d pointer_x pointer_y) - last_y s),
           InputEventSync])
   \<and> (\<not> (last_set s \<and> ptr_owner s = Some v) \<longrightarrow>
        filter is_rel_event (new_effects s (gd_motion_event fp env g pointer_x pointer_y v s)) = [])"
  by (auto simp: gd_motion_event_def new_effects_def emit_def Let_def
           split: option.splits prod.splits)

theorem relative_motion_delta_witness:
  "gfx_ds (vc_gfx (vc tabbed_owner 0)) = Some surface_800x600
   \<and> \<not> qemu_input_is_absolute env_relative
   \<and> last_set tabbed_owner \<and> ptr_owner tabbed_owner = Some 0
   \<and> surface_position int_fp geometry_1000x700 surface_800x600 500 400 = (400, 350)
   \<and> new_effects tabbed_owner
        (gd_motion_event int_fp env_relative geometry_1000x700 500 400 0 tabbed_owner)
      = [InputQueueRel INPUT_AXIS_X 10, InputQueueRel INPUT_AXIS_Y 10, InputEventSync]
   \<and> \<not> (last_set detached_owner \<and> ptr_owner detached_owner = Some 0)
   \<and> filter is_rel_event (new_effects detached_owner
        (gd_motion_event int_fp env_relative geometry_1000x700 500 400 0 detached_owner)) = []"
proof -
  have pos: "surface_position int_fp geometry_1000x700 surface_800x600 500 400 = (400, 350)"
    by (simp add: surface_position_def int_fp_def geometry_1000x700_def surface_800x600_def
                  letterbox_def Let_def signed_divide_int_def)
  show ?thesis
    using relative_motion_delta
            [where s = tabbed_owner and v = 0 and d = surface_800x600 and env = env_relative
               and fp = int_fp and g = geometry_1000x700 and pointer_x = 500 and pointer_y = 400]
          relative_motion_delta
            [where s = detached_owner and v = 0 and d = surface_800x600 and env = env_relative
               and fp = int_fp and g = geometry_1000x700 and pointer_x = 500 and pointer_y = 400]
    by (simp add: pos env_relative_def tabbed_owner_def detached_owner_def two_consoles_def
                  tabbed_vc0_def blank_vc_def blank_gfx_def)
qed


end
